theory Spec2Isabelle
  imports Complex_Main
begin

section \<open>Exceptions and effectful computations\<close>

text \<open>
  The module \<^verbatim>\<open>bentoml/tensorflow.py\<close> is glue around an external framework. Every call
  into the framework (coercing a tensor, invoking a restored function, loading a module,
  copying a directory) may change the world and may raise. A computation is therefore a
  function from a world state to a result-or-exception paired with the new world state.
  The world state \<open>'s\<close> stays abstract: a theorem that holds for every \<open>'s\<close> and every
  external operation says what the module itself does.
\<close>

datatype exn =
    TypeError_unexpected_keyword string
  | TypeError_two_values "string set"
  | TypeError_not_iterable
  | TypeError_not_subscriptable
  | KeyError string
  | AssertionError
  | AttributeError
  | NotImplementedError
  | FrameworkError string

type_synonym ('a, 's) prog = "'s \<Rightarrow> (exn + 'a) \<times> 's"

definition ret :: "'a \<Rightarrow> ('a, 's) prog" where
  "ret x = (\<lambda>s. (Inr x, s))"

definition raise :: "exn \<Rightarrow> ('a, 's) prog" where
  "raise e = (\<lambda>s. (Inl e, s))"

definition bnd :: "('a, 's) prog \<Rightarrow> ('a \<Rightarrow> ('b, 's) prog) \<Rightarrow> ('b, 's) prog" where
  "bnd m f = (\<lambda>s. case m s of (Inl e, s') \<Rightarrow> (Inl e, s') | (Inr x, s') \<Rightarrow> f x s')"

section \<open>The callable wrapper \<^verbatim>\<open>_tf_function_wrapper\<close>\<close>

text \<open>
  The four attributes set by \<^verbatim>\<open>__init__\<close>. Each of \<^verbatim>\<open>arg_names\<close>, \<^verbatim>\<open>arg_specs\<close> may be
  \<^verbatim>\<open>None\<close>; \<^verbatim>\<open>kwarg_specs\<close> is typed as optional too, because \<^verbatim>\<open>__call__\<close> tests it
  against \<^verbatim>\<open>None\<close>.
\<close>

record ('f, 'p) tf_function_wrapper =
  origin_func :: 'f
  arg_names :: "string list option"
  arg_specs :: "'p list option"
  kwarg_specs :: "(string \<rightharpoonup> 'p) option"

text \<open>\<^verbatim>\<open>x or []\<close> and \<^verbatim>\<open>x or {}\<close>: a missing or empty value reads as the empty one.\<close>

definition or_nil :: "'a list option \<Rightarrow> 'a list" where
  "or_nil x = (case x of None \<Rightarrow> [] | Some xs \<Rightarrow> xs)"

definition or_empty :: "('k \<rightharpoonup> 'a) option \<Rightarrow> ('k \<rightharpoonup> 'a)" where
  "or_empty x = (case x of None \<Rightarrow> Map.empty | Some m \<Rightarrow> m)"

text \<open>
  \<^verbatim>\<open>{k: v for k, v in pairs}\<close>: the pairs are stored one after the other, so a later
  pair with the same key replaces the earlier one.
\<close>

definition dict_of_pairs :: "('k \<times> 'a) list \<Rightarrow> ('k \<rightharpoonup> 'a)" where
  "dict_of_pairs ps = fold (\<lambda>(k, v) m. m(k \<mapsto> v)) ps Map.empty"

text \<open>\<^verbatim>\<open>d.update(e)\<close>: every key of \<open>e\<close> is stored into \<open>d\<close>.\<close>

definition dict_update :: "('k \<rightharpoonup> 'a) \<Rightarrow> ('k \<rightharpoonup> 'a) \<Rightarrow> ('k \<rightharpoonup> 'a)" where
  "dict_update d e = d ++ e"

text \<open>\<^verbatim>\<open>_tf_function_wrapper.__init__\<close> (lines 94--105).\<close>

definition tf_init ::
  "'f \<Rightarrow> string list option \<Rightarrow> 'p list option \<Rightarrow> (string \<rightharpoonup> 'p) option
     \<Rightarrow> ('f, 'p) tf_function_wrapper" where
  "tf_init f names specs kws =
     \<lparr>origin_func = f,
      arg_names = names,
      arg_specs = specs,
      kwarg_specs =
        Some (dict_update (dict_of_pairs (zip (or_nil names) (or_nil specs))) (or_empty kws))\<rparr>"

text \<open>
  The loop \<^verbatim>\<open>for k in kwargs: if k not in self.kwarg_specs: raise TypeError(...)\<close>
  (lines 111--113). The keyword arguments of a call keep the order in which the caller
  wrote them. Testing membership in \<^verbatim>\<open>None\<close> raises a TypeError of its own.
\<close>

fun check_kwargs :: "(string \<rightharpoonup> 'p) option \<Rightarrow> string list \<Rightarrow> (unit, 's) prog" where
  "check_kwargs ks [] = ret ()"
| "check_kwargs None (k # rest) = raise TypeError_not_iterable"
| "check_kwargs (Some m) (k # rest) =
     (if m k = None then raise (TypeError_unexpected_keyword k)
      else check_kwargs (Some m) rest)"

text \<open>
  \<^verbatim>\<open>{k for k, _ in zip(self.arg_names, args)}\<close> (line 115); \<^verbatim>\<open>zip\<close> refuses \<^verbatim>\<open>None\<close>.
\<close>

definition arg_keys_of :: "string list option \<Rightarrow> 'v list \<Rightarrow> (string set, 's) prog" where
  "arg_keys_of names args =
     (case names of
        None \<Rightarrow> raise TypeError_not_iterable
      | Some ns \<Rightarrow> ret (set (map fst (zip ns args))))"

text \<open>
  \<^verbatim>\<open>tuple(cast_tensor_by_spec(arg, spec) for arg, spec in zip(args, self.arg_specs))\<close>
  (lines 123--125). The coercion \<^verbatim>\<open>cast_tensor_by_spec\<close> lives in another module; it is
  the parameter \<open>cast\<close>, an effectful operation that may raise.
\<close>

fun cast_zip ::
  "('v \<Rightarrow> 'p \<Rightarrow> ('v, 's) prog) \<Rightarrow> ('v \<times> 'p) list \<Rightarrow> ('v list, 's) prog" where
  "cast_zip cast [] = ret []"
| "cast_zip cast ((a, sp) # rest) =
     bnd (cast a sp) (\<lambda>v. bnd (cast_zip cast rest) (\<lambda>vs. ret (v # vs)))"

definition cast_args ::
  "('v \<Rightarrow> 'p \<Rightarrow> ('v, 's) prog) \<Rightarrow> 'v list \<Rightarrow> 'p list option \<Rightarrow> ('v list, 's) prog" where
  "cast_args cast args specs =
     (case specs of
        None \<Rightarrow> raise TypeError_not_iterable
      | Some sps \<Rightarrow> cast_zip cast (zip args sps))"

text \<open>
  \<^verbatim>\<open>{k: cast_tensor_by_spec(arg, self.kwarg_specs[k]) for k, arg in kwargs.items()}\<close>
  (lines 127--130).
\<close>

fun cast_kwargs ::
  "('v \<Rightarrow> 'p \<Rightarrow> ('v, 's) prog) \<Rightarrow> (string \<rightharpoonup> 'p) option \<Rightarrow> (string \<times> 'v) list
     \<Rightarrow> ((string \<times> 'v) list, 's) prog" where
  "cast_kwargs cast ks [] = ret []"
| "cast_kwargs cast None ((k, a) # rest) = raise TypeError_not_subscriptable"
| "cast_kwargs cast (Some m) ((k, a) # rest) =
     (case m k of
        None \<Rightarrow> raise (KeyError k)
      | Some sp \<Rightarrow>
          bnd (cast a sp) (\<lambda>v.
          bnd (cast_kwargs cast (Some m) rest) (\<lambda>vs. ret ((k, v) # vs))))"

text \<open>
  \<^verbatim>\<open>_tf_function_wrapper.__call__\<close> (lines 107--131). The original callable takes the
  positional arguments and the keyword arguments and is effectful.
\<close>

definition tf_call ::
  "('v \<Rightarrow> 'p \<Rightarrow> ('v, 's) prog)
     \<Rightarrow> ('v list \<Rightarrow> (string \<times> 'v) list \<Rightarrow> ('r, 's) prog, 'p) tf_function_wrapper
     \<Rightarrow> 'v list \<Rightarrow> (string \<times> 'v) list \<Rightarrow> ('r, 's) prog" where
  "tf_call cast w args kwargs =
     (if arg_specs w = None \<and> kwarg_specs w = None then origin_func w args kwargs
      else
        bnd (check_kwargs (kwarg_specs w) (map fst kwargs)) (\<lambda>_.
        bnd (arg_keys_of (arg_names w) args) (\<lambda>arg_keys.
          let ambiguous_keys = arg_keys \<inter> set (map fst kwargs) in
          if ambiguous_keys \<noteq> {} then raise (TypeError_two_values ambiguous_keys)
          else
            bnd (cast_args cast args (arg_specs w)) (\<lambda>transformed_args.
            bnd (cast_kwargs cast (kwarg_specs w) kwargs) (\<lambda>transformed_kwargs.
              origin_func w transformed_args transformed_kwargs)))))"


section \<open>The bulk hook \<^verbatim>\<open>hook_loaded_model\<close>\<close>

text \<open>
  A loaded model is an object: a finite table from attribute names to values. The
  values that matter here are restored functions, wrappers put in their place, and the
  boolean flag \<^verbatim>\<open>_is_hub_module_v1\<close> that \<^verbatim>\<open>load\<close> sets.
\<close>

datatype ('f, 'p) attr =
    Function 'f
  | Wrapped "('f, 'p) tf_function_wrapper"
  | Flag bool

type_synonym ('f, 'p) py_object = "string \<rightharpoonup> ('f, 'p) attr"

text \<open>
  Signature introspection (\<^verbatim>\<open>get_restored_functions\<close>, \<^verbatim>\<open>get_arg_names\<close>,
  \<^verbatim>\<open>get_input_signatures\<close>) is imported from \<^verbatim>\<open>_internal.utils.tensorflow\<close>; the three
  functions are parameters. A signature is a pair of the positional specs and the
  keyword specs; \<^verbatim>\<open>get_arg_names\<close> may answer \<^verbatim>\<open>None\<close>.
\<close>

record ('f, 'p) introspection =
  get_restored_functions :: "('f, 'p) py_object \<Rightarrow> (string \<times> 'f) list"
  get_arg_names :: "'f \<Rightarrow> string list option"
  get_input_signatures :: "'f \<Rightarrow> ('p list \<times> (string \<rightharpoonup> 'p)) list"

text \<open>One round of the loop of \<^verbatim>\<open>hook_loaded_model\<close> (lines 139--154).\<close>

definition hook_step ::
  "('f, 'p) introspection \<Rightarrow> string \<times> 'f \<Rightarrow> ('f, 'p) py_object \<Rightarrow> ('f, 'p) py_object" where
  "hook_step ins = (\<lambda>(k, func) loaded_model.
     (case get_input_signatures ins func of
        [] \<Rightarrow> loaded_model
      | sig0 # others \<Rightarrow>
          loaded_model(k \<mapsto> Wrapped
            (tf_init func (get_arg_names ins func) (Some (fst sig0)) (Some (snd sig0))))))"

definition hook_loaded_model ::
  "('f, 'p) introspection \<Rightarrow> ('f, 'p) py_object \<Rightarrow> ('f, 'p) py_object" where
  "hook_loaded_model ins loaded_model =
     fold (hook_step ins) (get_restored_functions ins loaded_model) loaded_model"

section \<open>The model store and the framework\<close>

record model_info =
  info_context :: "string \<rightharpoonup> string"
  info_options :: "string \<rightharpoonup> string"
  info_path :: string

record store_ctx =
  ctx_path :: string
  ctx_tag :: string

text \<open>
  The registry is an external collaborator. \<^verbatim>\<open>get\<close> is a parameter. Of the context
  manager returned by \<^verbatim>\<open>register\<close> the module uses the entry (\<open>register_enter\<close>) and the
  exit, which is told whether the body completed.
\<close>

record ('d, 's) model_store =
  store_get :: "string \<Rightarrow> (model_info, 's) prog"
  register_enter :: "string \<Rightarrow> (string \<rightharpoonup> string) \<Rightarrow> 'd option \<Rightarrow> (store_ctx, 's) prog"
  register_exit :: "store_ctx \<Rightarrow> bool \<Rightarrow> 's \<Rightarrow> 's"

text \<open>
  Modelled from the spec: the scope of \<^verbatim>\<open>model_store.register\<close>, whose code is not part
  of this module. The spec gives it "guaranteed commit-on-exit (the entry is finalized
  and the tag becomes retrievable only after the scope completes without error)" and
  has every usage error "surfaced to the immediate caller": the exit runs on both paths
  and an exception raised in the body leaves the scope as it is.
\<close>

definition with_scope ::
  "(store_ctx, 's) prog \<Rightarrow> (store_ctx \<Rightarrow> bool \<Rightarrow> 's \<Rightarrow> 's) \<Rightarrow> (store_ctx \<Rightarrow> ('a, 's) prog)
     \<Rightarrow> ('a, 's) prog" where
  "with_scope enter exit body = (\<lambda>s.
     case enter s of
       (Inl e, s1) \<Rightarrow> (Inl e, s1)
     | (Inr ctx, s1) \<Rightarrow>
         (case body ctx s1 of
            (Inl e, s2) \<Rightarrow> (Inl e, exit ctx False s2)
          | (Inr x, s2) \<Rightarrow> (Inr x, exit ctx True s2)))"

text \<open>
  What the module asks of the interpreter, TensorFlow, TensorFlow Hub and the operating
  system. \<open>py_debug\<close> is Python's \<^verbatim>\<open>__debug__\<close>: it is false when the interpreter runs
  with \<^verbatim>\<open>-O\<close>, and then \<^verbatim>\<open>assert\<close> statements are compiled away. \<open>TF2\<close> is the module
  constant of that name, \<open>hub_installed\<close> says whether the import of \<^verbatim>\<open>tensorflow_hub\<close>
  succeeded, \<open>has_LoadOptions\<close> is \<^verbatim>\<open>hasattr(tf.saved_model, "LoadOptions")\<close>.
\<close>

record ('f, 'p, 'o, 'g, 's) framework =
  py_debug :: bool
  TF2 :: bool
  tf_version :: string
  hub_installed :: bool
  has_LoadOptions :: bool
  keras_layer :: "string \<Rightarrow> (('f, 'p) py_object, 's) prog"
  hub_module :: "string \<Rightarrow> (('f, 'p) py_object, 's) prog"
  module_proto_exists :: "string \<Rightarrow> (bool, 's) prog"
  load_v2 :: "string \<Rightarrow> string list option \<Rightarrow> 'o option \<Rightarrow> (('f, 'p) py_object, 's) prog"
  saved_model_load :: "string \<Rightarrow> (('f, 'p) py_object, 's) prog"
  compat_v2_saved_model_load :: "string \<Rightarrow> (('f, 'p) py_object, 's) prog"
  saved_model_save ::
    "('f, 'p) py_object \<Rightarrow> string \<Rightarrow> 'g option \<Rightarrow> 'o option \<Rightarrow> (unit, 's) prog"
  isdir :: "string \<Rightarrow> 's \<Rightarrow> bool"
  copy_tree :: "string \<Rightarrow> string \<Rightarrow> (unit, 's) prog"

text \<open>
  \<^verbatim>\<open>assert cond\<close>: raises \<^verbatim>\<open>AssertionError\<close> when the condition is false, unless the
  interpreter runs with \<^verbatim>\<open>-O\<close>, where the statement does nothing.
\<close>

definition py_assert :: "bool \<Rightarrow> bool \<Rightarrow> (unit, 's) prog" where
  "py_assert dbg cond = (if dbg \<and> \<not> cond then raise AssertionError else ret ())"

text \<open>\<^verbatim>\<open>_load_tf_saved_model\<close> (lines 157--166); the warning it logs is not modelled.\<close>

definition load_tf_saved_model ::
  "('f, 'p, 'o, 'g, 's) framework \<Rightarrow> string \<Rightarrow> (('f, 'p) py_object, 's) prog" where
  "load_tf_saved_model fw p =
     (if TF2 fw then saved_model_load fw p else compat_v2_saved_model_load fw p)"

text \<open>
  \<^verbatim>\<open>load\<close> (lines 199--244). Log messages are not modelled. After the \<^verbatim>\<open>assert\<close> of
  line 201 the test \<^verbatim>\<open>if load_as_wrapper:\<close> takes \<^verbatim>\<open>None\<close> for false. Where
  \<^verbatim>\<open>tensorflow_hub\<close> could not be imported, \<^verbatim>\<open>hub\<close> and \<^verbatim>\<open>native_module\<close> are \<^verbatim>\<open>None\<close> and
  reading an attribute of them raises.
\<close>

definition load ::
  "('f, 'p, 'o, 'g, 's) framework \<Rightarrow> ('f, 'p) introspection \<Rightarrow> ('d, 's) model_store
     \<Rightarrow> string \<Rightarrow> string list option \<Rightarrow> 'o option \<Rightarrow> bool option
     \<Rightarrow> (('f, 'p) py_object, 's) prog" where
  "load fw ins store tag tfhub_tags tfhub_options load_as_wrapper =
     bnd (store_get store tag) (\<lambda>info.
       if ''tensorflow_hub'' \<in> dom (info_context info) then
         bnd (py_assert (py_debug fw) (load_as_wrapper \<noteq> None)) (\<lambda>_.
           (case info_options info ''local_path'' of
              None \<Rightarrow> raise (KeyError ''local_path'')
            | Some module_path \<Rightarrow>
                if load_as_wrapper = Some True then
                  (if \<not> hub_installed fw then raise AttributeError
                   else if TF2 fw then keras_layer fw module_path
                   else hub_module fw module_path)
                else if \<not> hub_installed fw then raise AttributeError
                else
                  bnd (module_proto_exists fw module_path) (\<lambda>is_hub_module_v1.
                    let tags = (if tfhub_tags = None \<and> is_hub_module_v1 then Some []
                                else tfhub_tags)
                    in bnd (case tfhub_options of
                              Some opts \<Rightarrow>
                                if \<not> has_LoadOptions fw then raise NotImplementedError
                                else load_v2 fw module_path tags (Some opts)
                            | None \<Rightarrow> load_v2 fw module_path tags None)
                         (\<lambda>obj. ret (obj(''_is_hub_module_v1'' \<mapsto> Flag is_hub_module_v1))))))
       else
         bnd (load_tf_saved_model fw (info_path info)) (\<lambda>model.
           ret (hook_loaded_model ins model)))"

text \<open>
  A filesystem path handed to \<^verbatim>\<open>save\<close> is a \<^verbatim>\<open>str\<close> (or a path object, whose \<^verbatim>\<open>str\<close> is
  the path) or a \<^verbatim>\<open>bytes\<close>. \<open>fs_path\<close> is the path it denotes, which is what
  \<^verbatim>\<open>os.path.isdir\<close> looks at; \<open>py_str\<close> is \<^verbatim>\<open>str(model)\<close>, which for a \<^verbatim>\<open>bytes\<close> is the
  text of its literal, \<^verbatim>\<open>b'...'\<close> (written here for a path of plain characters, which
  the literal shows unescaped).
\<close>

datatype py_path =
    StrPath string
  | BytesPath string

fun fs_path :: "py_path \<Rightarrow> string" where
  "fs_path (StrPath p) = p"
| "fs_path (BytesPath p) = p"

fun py_str :: "py_path \<Rightarrow> string" where
  "py_str (StrPath p) = p"
| "py_str (BytesPath p) = ''b'' @ [CHR 0x27] @ p @ [CHR 0x27]"

text \<open>
  The \<^verbatim>\<open>model\<close> argument of \<^verbatim>\<open>save\<close>: a filesystem path
  (\<^verbatim>\<open>isinstance(model, (str, bytes, os.PathLike, pathlib.Path))\<close>) or a model object.
\<close>

datatype ('f, 'p) model_arg =
    PathLike py_path
  | ModelObject "('f, 'p) py_object"

text \<open>\<^verbatim>\<open>save\<close> (lines 344--367); the warning of the TensorFlow 1 branch is not modelled.\<close>

definition save ::
  "('f, 'p, 'o, 'g, 's) framework \<Rightarrow> ('d, 's) model_store \<Rightarrow> string \<Rightarrow> ('f, 'p) model_arg
     \<Rightarrow> 'g option \<Rightarrow> 'o option \<Rightarrow> 'd option \<Rightarrow> (string, 's) prog" where
  "save fw store name model signatures opts metadata =
     with_scope
       (register_enter store name [''tensorflow'' \<mapsto> tf_version fw] metadata)
       (register_exit store)
       (\<lambda>ctx.
          bnd (case model of
                 PathLike p \<Rightarrow>
                   bnd (\<lambda>s. py_assert (py_debug fw) (isdir fw (fs_path p) s) s) (\<lambda>_.
                     copy_tree fw (py_str p) (ctx_path ctx))
               | ModelObject m \<Rightarrow>
                   if TF2 fw then saved_model_save fw m (ctx_path ctx) signatures opts
                   else saved_model_save fw m (ctx_path ctx) signatures None)
            (\<lambda>_. ret (ctx_tag ctx)))"

section \<open>The runner's derived properties\<close>

text \<open>
  The two properties read the resource quota of the runner and ask TensorFlow for the
  GPUs. \<open>physical_gpus\<close> is the length of \<^verbatim>\<open>tf.config.list_physical_devices("GPU")\<close>, or
  \<open>None\<close> where this TensorFlow has no such function and the call raises
  \<^verbatim>\<open>AttributeError\<close>, the case \<^verbatim>\<open>_is_gpu_available\<close> catches; \<open>test_is_gpu_available\<close> is
  the answer of \<^verbatim>\<open>tf.test.is_gpu_available()\<close>. The CPU quota is a finite number.
\<close>

record devices =
  physical_gpus :: "nat option"
  test_is_gpu_available :: bool

record quota =
  cpu :: rat
  on_gpu :: bool

record tensorflow_runner =
  runner_name :: string
  predict_fn_name :: string
  resource_quota :: quota

text \<open>\<^verbatim>\<open>_is_gpu_available\<close> (lines 86--90).\<close>

definition is_gpu_available :: "devices \<Rightarrow> bool" where
  "is_gpu_available dv =
     (case physical_gpus dv of
        Some n \<Rightarrow> 0 < n
      | None \<Rightarrow> test_is_gpu_available dv)"

text \<open>
  Python's \<^verbatim>\<open>round\<close> with one argument: the nearest integer, a tie going to the even
  one.
\<close>

definition py_round :: "rat \<Rightarrow> int" where
  "py_round x =
     (let f = \<lfloor>x\<rfloor>; d = x - of_int f
      in if d < 1 / 2 then f
         else if 1 / 2 < d then f + 1
         else if even f then f else f + 1)"

text \<open>\<^verbatim>\<open>num_concurrency_per_replica\<close> (lines 403--407).\<close>

definition num_concurrency_per_replica :: "devices \<Rightarrow> tensorflow_runner \<Rightarrow> int" where
  "num_concurrency_per_replica dv self =
     (if is_gpu_available dv \<and> on_gpu (resource_quota self) then 1
      else py_round (cpu (resource_quota self)))"

text \<open>\<^verbatim>\<open>num_replica\<close> (lines 409--413).\<close>

definition num_replica :: "devices \<Rightarrow> tensorflow_runner \<Rightarrow> exn + nat" where
  "num_replica dv self =
     (if is_gpu_available dv \<and> on_gpu (resource_quota self) then
        (case physical_gpus dv of
           None \<Rightarrow> Inl AttributeError
         | Some n \<Rightarrow> Inr n)
      else Inr 1)"

section \<open>The merged lookup, in the words of the specification\<close>

text \<open>
  The lookup the specification describes: a name bound by the explicit keyword specs
  has that spec; any other name has the spec it is paired with when the ordered names
  are zipped against the positional specs. Where a name occurs twice among the ordered
  names, its last pairing counts.
\<close>

definition merged_lookup ::
  "string list \<Rightarrow> 'p list \<Rightarrow> (string \<rightharpoonup> 'p) \<Rightarrow> (string \<rightharpoonup> 'p)" where
  "merged_lookup ns sps kw =
     (\<lambda>k. case kw k of Some sp \<Rightarrow> Some sp | None \<Rightarrow> map_of (rev (zip ns sps)) k)"

section \<open>A recording instance\<close>

text \<open>
  For concrete runs: values are integers, a spec is a number that coercion adds to the
  value, and the world state is the list of the external calls made so far.
\<close>

datatype event =
    Cast int nat
  | Invoke "int list" "(string \<times> int) list"
  | Get string
  | Enter string
  | Exit bool
  | Copy string string
  | Framework string

definition log_cast :: "int \<Rightarrow> nat \<Rightarrow> (int, event list) prog" where
  "log_cast a sp = (\<lambda>s. (Inr (a + int sp), s @ [Cast a sp]))"

definition log_origin ::
  "int list \<Rightarrow> (string \<times> int) list \<Rightarrow> (int list, event list) prog" where
  "log_origin args kwargs = (\<lambda>s. (Inr args, s @ [Invoke args kwargs]))"

definition log_call :: "event \<Rightarrow> 'a \<Rightarrow> ('a, event list) prog" where
  "log_call ev x = (\<lambda>s. (Inr x, s @ [ev]))"

definition hub_info :: model_info where
  "hub_info = \<lparr>info_context = [''tensorflow'' \<mapsto> ''2.6.0'', ''tensorflow_hub'' \<mapsto> ''0.12.0''],
               info_options = [''local_path'' \<mapsto> ''/store/hub''],
               info_path = ''/store/entry''\<rparr>"

definition log_store :: "(unit, event list) model_store" where
  "log_store =
     \<lparr>store_get = (\<lambda>tag. log_call (Get tag) hub_info),
      register_enter = (\<lambda>name ctxt md.
         log_call (Enter name) \<lparr>ctx_path = ''/store/new'', ctx_tag = name @ '':v1''\<rparr>),
      register_exit = (\<lambda>ctx ok s. s @ [Exit ok])\<rparr>"

text \<open>
  The recording framework has one directory, \<^verbatim>\<open>/data/saved_model\<close>; its \<open>copy_tree\<close>
  records the call and, as the one of \<^verbatim>\<open>distutils\<close>, refuses a source that is not a
  directory.
\<close>

definition log_framework ::
  "(int list \<Rightarrow> (string \<times> int) list \<Rightarrow> (int list, event list) prog, nat, unit, unit, event list)
     framework" where
  "log_framework =
     \<lparr>py_debug = True,
      TF2 = True,
      tf_version = ''2.6.0'',
      hub_installed = True,
      has_LoadOptions = True,
      keras_layer = (\<lambda>p. log_call (Framework ''KerasLayer'') Map.empty),
      hub_module = (\<lambda>p. log_call (Framework ''Module'') Map.empty),
      module_proto_exists = (\<lambda>p. log_call (Framework ''exists'') False),
      load_v2 = (\<lambda>p tags opts. log_call (Framework ''load_v2'') Map.empty),
      saved_model_load = (\<lambda>p. log_call (Framework ''load'') Map.empty),
      compat_v2_saved_model_load = (\<lambda>p. log_call (Framework ''load'') Map.empty),
      saved_model_save = (\<lambda>m p sg opts. log_call (Framework ''save'') ()),
      isdir = (\<lambda>p s. p = ''/data/saved_model''),
      copy_tree = (\<lambda>src dst s.
        if src = ''/data/saved_model'' then (Inr (), s @ [Copy src dst])
        else (Inl (FrameworkError ''DistutilsFileError''), s @ [Copy src dst]))\<rparr>"

text \<open>The same framework under \<^verbatim>\<open>python -O\<close>.\<close>

definition log_framework_O ::
  "(int list \<Rightarrow> (string \<times> int) list \<Rightarrow> (int list, event list) prog, nat, unit, unit, event list)
     framework" where
  "log_framework_O = log_framework\<lparr>py_debug := False\<rparr>"

text \<open>
  A model whose restored function \<^verbatim>\<open>predict\<close> records two signatures: the first with one
  positional spec, the second with two positional specs and a keyword spec for \<open>y\<close>.
\<close>

definition two_signatures ::
  "(int list \<Rightarrow> (string \<times> int) list \<Rightarrow> (int list, event list) prog, nat) introspection" where
  "two_signatures =
     \<lparr>get_restored_functions = (\<lambda>m. [(''predict'', log_origin)]),
      get_arg_names = (\<lambda>f. Some [''x'', ''y'']),
      get_input_signatures = (\<lambda>f. [([1], Map.empty), ([2, 3], [''y'' \<mapsto> 4])])\<rparr>"

section \<open>Laws of the computations\<close>

lemma raise_apply: "raise e s = (Inl e, s)"
  by (simp add: raise_def)

lemma ret_apply: "ret x s = (Inr x, s)"
  by (simp add: ret_def)

lemma bnd_raise [simp]: "bnd (raise e) f = raise e"
  by (simp add: bnd_def raise_def fun_eq_iff)

lemma bnd_ret [simp]: "bnd (ret x) f = f x"
  by (simp add: bnd_def ret_def fun_eq_iff)

lemma bnd_apply_Inr: "m s = (Inr x, s') \<Longrightarrow> bnd m f s = f x s'"
  by (simp add: bnd_def)

section \<open>Construction of the wrapper\<close>

lemma tf_init_simps:
  "origin_func (tf_init f names specs kws) = f"
  "arg_names (tf_init f names specs kws) = names"
  "arg_specs (tf_init f names specs kws) = specs"
  by (simp_all add: tf_init_def)

lemma fold_update_map_of:
  "fold (\<lambda>(k, v) m. m(k \<mapsto> v)) ps m0 = m0 ++ map_of (rev ps)"
  by (induction ps arbitrary: m0) (auto simp: map_add_def fun_eq_iff split: option.splits)

lemma dict_of_pairs_map_of: "dict_of_pairs ps = map_of (rev ps)"
  by (simp add: dict_of_pairs_def fold_update_map_of)

lemma map_of_rev_distinct: "distinct (map fst ps) \<Longrightarrow> map_of (rev ps) = map_of ps"
  by (rule map_of_inject_set [THEN iffD2]) (simp_all add: rev_map [symmetric])

text \<open>
  Claim C5. The merged spec lookup built by \<^verbatim>\<open>__init__\<close> from the ordered names, the
  positional specs and the keyword-spec mapping (a missing list or mapping counting as
  empty) is the map obtained by zipping the names against the positional specs, where
  \<open>zip\<close> stops at the shorter list, and overlaying the explicit keyword specs: a name
  bound by the explicit keyword specs has that spec, and any other name has the spec it
  is zipped with.
\<close>

theorem merged_spec_lookup:
  assumes "ns = (case names of None \<Rightarrow> [] | Some xs \<Rightarrow> xs)"
    and "sps = (case specs of None \<Rightarrow> [] | Some xs \<Rightarrow> xs)"
    and "kw = (case kws of None \<Rightarrow> Map.empty | Some d \<Rightarrow> d)"
  shows "\<exists>lk. kwarg_specs (tf_init f names specs kws) = Some lk \<and>
           lk = merged_lookup ns sps kw \<and>
           (\<forall>k sp. kw k = Some sp \<longrightarrow> lk k = Some sp) \<and>
           (\<forall>k. kw k = None \<longrightarrow> lk k = map_of (rev (zip ns sps)) k) \<and>
           (distinct ns \<longrightarrow> (\<forall>k. kw k = None \<longrightarrow> lk k = map_of (zip ns sps) k))"
proof -
  have eq: "kwarg_specs (tf_init f names specs kws) = Some (merged_lookup ns sps kw)"
    using assms
    by (simp add: tf_init_def dict_update_def dict_of_pairs_map_of merged_lookup_def
        or_nil_def or_empty_def map_add_def fun_eq_iff split: option.splits)
  have d: "distinct ns \<Longrightarrow> map_of (rev (zip ns sps)) = map_of (zip ns sps)"
    by (rule map_of_rev_distinct) (simp add: map_fst_zip_take)
  show ?thesis
    using eq d by (simp add: merged_lookup_def)
qed

theorem merged_spec_lookup_witness:
  "\<exists>lk. kwarg_specs (tf_init log_origin (Some [''x'', ''y'']) (Some [5, 6 :: nat])
            (Some [''y'' \<mapsto> 9])) = Some lk \<and>
     lk ''x'' = Some 5 \<and> lk ''y'' = Some 9 \<and> lk ''z'' = None"
proof -
  have h1: "[''x'', ''y''] = (case Some [''x'', ''y''] of None \<Rightarrow> [] | Some xs \<Rightarrow> xs)"
    by simp
  have h2: "[5, 6 :: nat] = (case Some [5, 6] of None \<Rightarrow> [] | Some xs \<Rightarrow> xs)"
    by simp
  have h3: "[''y'' \<mapsto> 9 :: nat] = (case Some [''y'' \<mapsto> 9] of None \<Rightarrow> Map.empty | Some d \<Rightarrow> d)"
    by simp
  from merged_spec_lookup [OF h1 h2 h3, of log_origin]
  obtain lk where lk: "kwarg_specs (tf_init log_origin (Some [''x'', ''y'']) (Some [5, 6 :: nat])
                         (Some [''y'' \<mapsto> 9])) = Some lk"
    and explicit: "\<forall>k sp. [''y'' \<mapsto> 9 :: nat] k = Some sp \<longrightarrow> lk k = Some sp"
    and zipped: "distinct [''x'', ''y''] \<longrightarrow>
                   (\<forall>k. [''y'' \<mapsto> 9 :: nat] k = None \<longrightarrow>
                      lk k = map_of (zip [''x'', ''y''] [5, 6]) k)"
    by blast
  from explicit have "lk ''y'' = Some 9"
    by simp
  moreover from zipped have "lk ''x'' = Some 5" and "lk ''z'' = None"
    by simp_all
  ultimately show ?thesis
    using lk by blast
qed

section \<open>Calls of the wrapper\<close>

lemma check_kwargs_find:
  "check_kwargs (Some m) ks =
     (case find (\<lambda>k. m k = None) ks of
        None \<Rightarrow> ret ()
      | Some k \<Rightarrow> raise (TypeError_unexpected_keyword k))"
  by (induction ks) simp_all

lemma check_kwargs_known:
  "\<forall>k \<in> set ks. m k \<noteq> None \<Longrightarrow> check_kwargs (Some m) ks = ret ()"
  by (induction ks) auto

lemma find_first:
  assumes "k \<in> set ks" and "P k" and "\<forall>k' \<in> set (takeWhile (\<lambda>x. x \<noteq> k) ks). \<not> P k'"
  shows "find P ks = Some k"
  using assms by (induction ks) (auto split: if_splits)

lemma find_some_unknown:
  assumes "k \<in> set ks" and "P k"
  shows "\<exists>k'. find P ks = Some k' \<and> k' \<in> set ks \<and> P k'"
  using assms by (induction ks) auto

lemma find_before:
  "find P ks = Some k \<Longrightarrow> \<forall>k' \<in> set (takeWhile (\<lambda>x. x \<noteq> k) ks). \<not> P k'"
  by (induction ks) (auto split: if_splits)


lemma cast_zip_length:
  "cast_zip cast ps s = (Inr vs, s') \<Longrightarrow> length vs = length ps"
proof (induction ps arbitrary: vs s s')
  case Nil
  then show ?case by (simp add: ret_def)
next
  case (Cons p ps)
  obtain a sp where p: "p = (a, sp)" by (cases p)
  from Cons.prems p show ?case
    by (auto simp: bnd_def ret_def split: prod.splits sum.splits dest: Cons.IH)
qed

text \<open>
  A coercion that always succeeds is given by the value it returns and by what it does
  to the world. The two comprehensions then coerce every pair, in order.
\<close>

lemma cast_zip_succeeds:
  assumes "\<And>a sp s. cast a sp s = (Inr (c a sp), t a sp s)"
  shows "cast_zip cast ps s =
           (Inr (map (\<lambda>(a, sp). c a sp) ps), fold (\<lambda>(a, sp). t a sp) ps s)"
proof (induction ps arbitrary: s)
  case Nil
  then show ?case by (simp add: ret_def)
next
  case (Cons p ps)
  obtain a sp where p: "p = (a, sp)" by (cases p)
  show ?case
    by (simp add: p bnd_def ret_def assms [of a sp s] Cons.IH)
qed

lemma cast_kwargs_succeeds:
  assumes "\<And>a sp s. cast a sp s = (Inr (c a sp), t a sp s)"
    and "\<forall>k \<in> set (map fst kws). m k \<noteq> None"
  shows "cast_kwargs cast (Some m) kws s =
           (Inr (map (\<lambda>(k, a). (k, c a (the (m k)))) kws),
            fold (\<lambda>(k, a). t a (the (m k))) kws s)"
  using assms(2)
proof (induction kws arbitrary: s)
  case Nil
  then show ?case by (simp add: ret_def)
next
  case (Cons p kws)
  obtain k a where p: "p = (k, a)" by (cases p)
  from Cons.prems p obtain sp where sp: "m k = Some sp"
    by auto
  from Cons.prems have rest: "\<forall>k \<in> set (map fst kws). m k \<noteq> None"
    by simp
  show ?case
    by (simp add: p sp bnd_def ret_def assms(1) [of a sp s] Cons.IH [OF rest])
qed

lemma tf_call_coerces:
  assumes "arg_specs w = Some sps" and "arg_names w = Some ns" and "kwarg_specs w = Some m"
    and "\<And>a sp s. cast a sp s = (Inr (c a sp), t a sp s)"
    and "\<forall>k \<in> set (map fst kwargs). m k \<noteq> None"
    and "set (map fst (zip ns args)) \<inter> set (map fst kwargs) = {}"
  shows "tf_call cast w args kwargs s =
           origin_func w
             (map (\<lambda>(a, sp). c a sp) (zip args sps))
             (map (\<lambda>(k, a). (k, c a (the (m k)))) kwargs)
             (fold (\<lambda>(k, a). t a (the (m k))) kwargs
                (fold (\<lambda>(a, sp). t a sp) (zip args sps) s))"
proof -
  let ?s1 = "fold (\<lambda>(a, sp). t a sp) (zip args sps) s"
  have chk: "check_kwargs (Some m) (map fst kwargs) = (ret () :: (unit, 'c) prog)"
    using assms(5) by (rule check_kwargs_known)
  have ca: "cast_args cast args (Some sps) s = (Inr (map (\<lambda>(a, sp). c a sp) (zip args sps)), ?s1)"
    by (simp add: cast_args_def cast_zip_succeeds [of cast c t, OF assms(4)])
  have ck: "cast_kwargs cast (Some m) kwargs ?s1 =
      (Inr (map (\<lambda>(k, a). (k, c a (the (m k)))) kwargs),
       fold (\<lambda>(k, a). t a (the (m k))) kwargs ?s1)"
    by (rule cast_kwargs_succeeds [of cast c t, OF assms(4) assms(5)])
  show ?thesis
    using assms(6)
    by (simp add: tf_call_def arg_keys_of_def assms(1,2,3) chk
        bnd_apply_Inr [of "cast_args cast args (Some sps)" s, OF ca]
        bnd_apply_Inr [of "cast_kwargs cast (Some m) kwargs" ?s1, OF ck])
qed

lemma tf_call_unknown_keyword:
  assumes "kwarg_specs w = Some m" and "k \<in> set (map fst kwargs)" and "m k = None"
  shows "\<exists>k'. k' \<in> set (map fst kwargs) \<and> m k' = None \<and>
           (\<forall>k'' \<in> set (takeWhile (\<lambda>x. x \<noteq> k') (map fst kwargs)). m k'' \<noteq> None) \<and>
           tf_call cast w args kwargs s = (Inl (TypeError_unexpected_keyword k'), s)"
proof -
  from find_some_unknown [of k "map fst kwargs" "\<lambda>k. m k = None"] assms
  obtain k' where k': "find (\<lambda>k. m k = None) (map fst kwargs) = Some k'"
    "k' \<in> set (map fst kwargs)" "m k' = None" by blast
  have call: "tf_call cast w args kwargs s = (Inl (TypeError_unexpected_keyword k'), s)"
    using assms(1) k'(1) by (simp add: tf_call_def check_kwargs_find raise_apply)
  have "\<forall>k'' \<in> set (takeWhile (\<lambda>x. x \<noteq> k') (map fst kwargs)). m k'' \<noteq> None"
    using k'(1) by (rule find_before)
  with k' call show ?thesis by blast
qed

lemma log_cast_succeeds: "log_cast a sp s = (Inr (a + int sp), s @ [Cast a sp])"
  by (simp add: log_cast_def)


lemma recorded_specs:
  "kwarg_specs (tf_init log_origin (Some [''x'', ''y'']) (Some [5::nat]) None) =
     Some [''x'' \<mapsto> 5]"
  by (simp add: tf_init_def dict_update_def dict_of_pairs_def or_nil_def or_empty_def)

text \<open>
  A wrapper built without any spec fails on every call, and before it touches the
  coercion or the original callable: \<^verbatim>\<open>__init__\<close> always stores a dictionary in
  \<^verbatim>\<open>kwarg_specs\<close>, so the forwarding branch of \<^verbatim>\<open>__call__\<close> is never taken. A keyword
  argument is then unexpected, and without one \<^verbatim>\<open>zip\<close> meets \<^verbatim>\<open>None\<close>.
\<close>

lemma no_spec_wrapper_never_forwards:
  "tf_call cast (tf_init f None None None) args kwargs s =
     (Inl (case kwargs of
             [] \<Rightarrow> TypeError_not_iterable
           | (k, a) # rest \<Rightarrow> TypeError_unexpected_keyword k), s)"
proof (cases kwargs)
  case Nil
  then show ?thesis
    by (simp add: tf_call_def tf_init_def arg_keys_of_def raise_apply)
next
  case (Cons kv rest)
  obtain k a where "kv = (k, a)" by (cases kv)
  with Cons show ?thesis
    by (simp add: tf_call_def tf_init_def dict_update_def dict_of_pairs_def or_nil_def
        or_empty_def raise_apply)
qed

text \<open>
  Claim C1. A wrapper constructed with no positional specs and no keyword specs should
  forward any call unchanged to the original callable and return its result. The code
  does not: for the wrapper built from \<^verbatim>\<open>None\<close>, \<^verbatim>\<open>None\<close>, \<^verbatim>\<open>None\<close> the call with the
  positional arguments \<open>1, 2\<close> raises a TypeError and the original callable, which would
  have returned \<open>[1, 2]\<close>, is not invoked.
\<close>

theorem no_spec_wrapper_rejects_call:
  "tf_call log_cast (tf_init log_origin None None None) [1, 2] [] [] =
     (Inl TypeError_not_iterable, []) \<and>
   log_origin [1, 2] [] [] = (Inr [1, 2], [Invoke [1, 2] []])"
  by (simp add: tf_call_def tf_init_def arg_keys_of_def raise_apply log_origin_def)




text \<open>
  Claim C3, as stated, at a concrete input. The call supplies the keywords \<open>b\<close> and \<open>a\<close>,
  in this order, and the merged lookup has neither. The keyword \<open>a\<close> is not in the
  lookup, yet the error does not name it: it names \<open>b\<close>.
\<close>

theorem unknown_keyword_counterexample:
  "''a'' \<in> set (map fst [(''b'', 1::int), (''a'', 2)]) \<and>
   [''x'' \<mapsto> 5::nat] ''a'' = None \<and>
   kwarg_specs (tf_init log_origin (Some [''x'', ''y'']) (Some [5::nat]) None) =
     Some [''x'' \<mapsto> 5] \<and>
   tf_call log_cast (tf_init log_origin (Some [''x'', ''y'']) (Some [5]) None)
       [1] [(''b'', 1), (''a'', 2)] [] =
     (Inl (TypeError_unexpected_keyword ''b''), []) \<and>
   tf_call log_cast (tf_init log_origin (Some [''x'', ''y'']) (Some [5]) None)
       [1] [(''b'', 1), (''a'', 2)] [] \<noteq>
     (Inl (TypeError_unexpected_keyword ''a''), [])"
  by (simp add: tf_call_def tf_init_def dict_update_def dict_of_pairs_def or_nil_def or_empty_def
      raise_apply)

text \<open>
  Claim C3, amended. When a call supplies a keyword argument whose name is not in the
  merged spec lookup, the call fails with the TypeError for an unexpected keyword
  argument, naming the first supplied keyword, in the order of the call, that the lookup
  does not have; this is the offending key itself whenever no unknown name precedes it,
  in particular when it is the only unknown one. Nothing else happens: the world state is
  the one before the call, whatever the coercion and the original callable are, so
  neither has run.
\<close>

theorem unknown_keyword_fails:
  assumes "kwarg_specs w = Some m" and "k \<in> set (map fst kwargs)" and "m k = None"
  shows "(\<exists>k'. k' \<in> set (map fst kwargs) \<and> m k' = None \<and>
            (\<forall>k'' \<in> set (takeWhile (\<lambda>x. x \<noteq> k') (map fst kwargs)). m k'' \<noteq> None) \<and>
            tf_call cast w args kwargs s = (Inl (TypeError_unexpected_keyword k'), s)) \<and>
         ((\<forall>k' \<in> set (takeWhile (\<lambda>x. x \<noteq> k) (map fst kwargs)). m k' \<noteq> None) \<longrightarrow>
            tf_call cast w args kwargs s = (Inl (TypeError_unexpected_keyword k), s))"
proof
  show "\<exists>k'. k' \<in> set (map fst kwargs) \<and> m k' = None \<and>
            (\<forall>k'' \<in> set (takeWhile (\<lambda>x. x \<noteq> k') (map fst kwargs)). m k'' \<noteq> None) \<and>
            tf_call cast w args kwargs s = (Inl (TypeError_unexpected_keyword k'), s)"
    using assms by (rule tf_call_unknown_keyword)
next
  show "(\<forall>k' \<in> set (takeWhile (\<lambda>x. x \<noteq> k) (map fst kwargs)). m k' \<noteq> None) \<longrightarrow>
            tf_call cast w args kwargs s = (Inl (TypeError_unexpected_keyword k), s)"
  proof
    assume first: "\<forall>k' \<in> set (takeWhile (\<lambda>x. x \<noteq> k) (map fst kwargs)). m k' \<noteq> None"
    have "find (\<lambda>k. m k = None) (map fst kwargs) = Some k"
      using assms(2,3) first by (intro find_first) auto
    then show "tf_call cast w args kwargs s = (Inl (TypeError_unexpected_keyword k), s)"
      using assms(1) by (simp add: tf_call_def check_kwargs_find raise_apply)
  qed
qed

theorem unknown_keyword_fails_witness:
  "tf_call log_cast (tf_init log_origin (Some [''x'', ''y'']) (Some [5]) None)
       [] [(''x'', 1), (''z'', 2)] [] =
     (Inl (TypeError_unexpected_keyword ''z''), [])"
proof -
  have h2: "''z'' \<in> set (map fst [(''x'', 1::int), (''z'', 2::int)])"
    by simp
  have h3: "[''x'' \<mapsto> 5::nat] ''z'' = None"
    by simp
  from unknown_keyword_fails [OF recorded_specs h2 h3, of log_cast "[]" "[]"]
  show ?thesis by simp
qed

text \<open>
  Claim C4, as stated, at a concrete input. The ordered names are \<open>x, y\<close>, only \<open>x\<close> has
  a positional spec, and the call passes two positional arguments and the keyword \<open>y\<close>.
  The names implied by the positional arguments meet the keyword names in \<open>y\<close>, yet the
  error is the one for an unexpected keyword argument, not the duplicate-argument
  error: the keyword check comes first and \<open>y\<close> is not in the merged lookup.
\<close>

theorem duplicate_argument_counterexample:
  "set (map fst (zip [''x'', ''y''] [1::int, 2])) \<inter> set (map fst [(''y'', 3::int)]) = {''y''} \<and>
   tf_call log_cast (tf_init log_origin (Some [''x'', ''y'']) (Some [5]) None)
       [1, 2] [(''y'', 3)] [] =
     (Inl (TypeError_unexpected_keyword ''y''), []) \<and>
   tf_call log_cast (tf_init log_origin (Some [''x'', ''y'']) (Some [5]) None)
       [1, 2] [(''y'', 3)] [] \<noteq>
     (Inl (TypeError_two_values {''y''}), [])"
  by (simp add: tf_call_def tf_init_def dict_update_def dict_of_pairs_def or_nil_def or_empty_def
      raise_apply)

text \<open>
  Claim C4, amended. When the names implied by the order of the positional arguments
  meet the supplied keyword names, the call fails before any coercion and before the
  original callable is invoked (the world state is unchanged); and when every supplied
  keyword name is in the merged spec lookup, the failure is the duplicate-argument
  error listing exactly the conflicting names.
\<close>

theorem duplicate_argument_fails:
  assumes "kwarg_specs w = Some m" and "arg_names w = Some ns"
    and "set (map fst (zip ns args)) \<inter> set (map fst kwargs) \<noteq> {}"
  shows "(\<exists>e. tf_call cast w args kwargs s = (Inl e, s)) \<and>
         ((\<forall>k \<in> set (map fst kwargs). m k \<noteq> None) \<longrightarrow>
            tf_call cast w args kwargs s =
              (Inl (TypeError_two_values
                      (set (map fst (zip ns args)) \<inter> set (map fst kwargs))), s))"
proof
  show "\<exists>e. tf_call cast w args kwargs s = (Inl e, s)"
  proof (cases "find (\<lambda>k. m k = None) (map fst kwargs)")
    case None
    then show ?thesis using assms
      by (simp add: tf_call_def check_kwargs_find arg_keys_of_def raise_apply)
  next
    case (Some k)
    then show ?thesis using assms
      by (simp add: tf_call_def check_kwargs_find raise_apply)
  qed
next
  show "(\<forall>k \<in> set (map fst kwargs). m k \<noteq> None) \<longrightarrow>
            tf_call cast w args kwargs s =
              (Inl (TypeError_two_values
                      (set (map fst (zip ns args)) \<inter> set (map fst kwargs))), s)"
  proof
    assume "\<forall>k \<in> set (map fst kwargs). m k \<noteq> None"
    then have "check_kwargs (Some m) (map fst kwargs) = (ret () :: (unit, 'c) prog)"
      by (rule check_kwargs_known)
    then show "tf_call cast w args kwargs s =
              (Inl (TypeError_two_values
                      (set (map fst (zip ns args)) \<inter> set (map fst kwargs))), s)"
      using assms by (simp add: tf_call_def arg_keys_of_def raise_apply)
  qed
qed

theorem duplicate_argument_fails_witness:
  "tf_call log_cast (tf_init log_origin (Some [''x'', ''y'']) (Some [5]) None)
       [1, 2] [(''x'', 3)] [] =
     (Inl (TypeError_two_values {''x''}), [])"
proof -
  let ?w = "tf_init log_origin (Some [''x'', ''y'']) (Some [5::nat]) None"
  have h2: "arg_names ?w = Some [''x'', ''y'']"
    by (simp add: tf_init_simps)
  have h3: "set (map fst (zip [''x'', ''y''] [1::int, 2])) \<inter>
              set (map fst [(''x'', 3::int)]) \<noteq> {}"
    by simp
  from duplicate_argument_fails [OF recorded_specs h2 h3, of log_cast "[]"]
  show ?thesis by simp
qed

section \<open>The bulk hook\<close>

lemma hook_step_apply:
  "hook_step ins (k', f') m k =
     (if k = k' then
        (case get_input_signatures ins f' of
           [] \<Rightarrow> m k
         | sig0 # others \<Rightarrow>
             Some (Wrapped (tf_init f' (get_arg_names ins f')
                      (Some (fst sig0)) (Some (snd sig0)))))
      else m k)"
  by (simp add: hook_step_def split: list.splits)

lemma hook_fold:
  "distinct (map fst fs) \<Longrightarrow>
   fold (hook_step ins) fs m k =
     (case map_of fs k of
        None \<Rightarrow> m k
      | Some func \<Rightarrow>
          (case get_input_signatures ins func of
             [] \<Rightarrow> m k
           | sig0 # others \<Rightarrow>
               Some (Wrapped (tf_init func (get_arg_names ins func)
                        (Some (fst sig0)) (Some (snd sig0))))))"
proof (induction fs arbitrary: m)
  case Nil
  then show ?case by simp
next
  case (Cons kf fs)
  obtain k' f' where kf: "kf = (k', f')" by (cases kf)
  from Cons.prems kf have d: "distinct (map fst fs)" and notin: "k' \<notin> fst ` set fs"
    by simp_all
  from notin have none: "map_of fs k' = None"
    by (simp add: map_of_eq_None_iff)
  have "fold (hook_step ins) (kf # fs) m k =
          fold (hook_step ins) fs (hook_step ins (k', f') m) k"
    by (simp add: kf)
  also have "\<dots> =
     (case map_of fs k of
        None \<Rightarrow> hook_step ins (k', f') m k
      | Some func \<Rightarrow>
          (case get_input_signatures ins func of
             [] \<Rightarrow> hook_step ins (k', f') m k
           | sig0 # others \<Rightarrow>
               Some (Wrapped (tf_init func (get_arg_names ins func)
                        (Some (fst sig0)) (Some (snd sig0))))))"
    by (rule Cons.IH [OF d])
  also have "\<dots> =
     (case map_of (kf # fs) k of
        None \<Rightarrow> m k
      | Some func \<Rightarrow>
          (case get_input_signatures ins func of
             [] \<Rightarrow> m k
           | sig0 # others \<Rightarrow>
               Some (Wrapped (tf_init func (get_arg_names ins func)
                        (Some (fst sig0)) (Some (snd sig0))))))"
  proof (cases "k = k'")
    case True
    then show ?thesis
      using none by (simp add: kf hook_step_apply split: list.splits)
  next
    case False
    then show ?thesis
      by (simp add: kf hook_step_apply split: option.splits list.splits)
  qed
  finally show ?case .
qed

text \<open>
  Claim C10. For a restored function that records several input signatures, the bulk
  hook replaces the attribute by a wrapper of the function whose positional specs are
  those of the first signature and whose merged lookup is built from the argument names
  and the first signature alone; the other signatures do not occur in it. Calls of the
  installed wrapper are therefore checked and coerced against signature 0 only: a
  keyword that this lookup does not have is rejected, whatever the other signatures
  record for it, and the positional and keyword arguments of an accepted call are
  coerced against the specs of signature 0 before the function is invoked. The restored
  functions come as a dictionary, so their names are distinct.
\<close>

theorem hook_uses_first_signature:
  assumes "distinct (map fst (get_restored_functions ins loaded_model))"
    and "(k, func) \<in> set (get_restored_functions ins loaded_model)"
    and "get_input_signatures ins func = sig0 # others"
    and "lookup0 = (\<lambda>x. case snd sig0 x of
                          Some sp \<Rightarrow> Some sp
                        | None \<Rightarrow>
                            map_of (rev (zip (case get_arg_names ins func of
                                               None \<Rightarrow> [] | Some xs \<Rightarrow> xs) (fst sig0))) x)"
  shows "\<exists>w. hook_loaded_model ins loaded_model k = Some (Wrapped w) \<and>
           w = \<lparr>origin_func = func, arg_names = get_arg_names ins func,
                arg_specs = Some (fst sig0), kwarg_specs = Some lookup0\<rparr> \<and>
           (x \<in> set (map fst kwargs) \<and> lookup0 x = None \<longrightarrow>
              (\<exists>x'. x' \<in> set (map fst kwargs) \<and> lookup0 x' = None \<and>
                 tf_call cast w args kwargs s = (Inl (TypeError_unexpected_keyword x'), s))) \<and>
           ((\<forall>a sp s. cast a sp s = (Inr (c a sp), t a sp s)) \<and>
            get_arg_names ins func = Some ns \<and>
            (\<forall>x \<in> set (map fst kwargs). lookup0 x \<noteq> None) \<and>
            set (map fst (zip ns args)) \<inter> set (map fst kwargs) = {} \<longrightarrow>
              tf_call cast w args kwargs s =
                func (map (\<lambda>(a, sp). c a sp) (zip args (fst sig0)))
                     (map (\<lambda>(x, a). (x, c a (the (lookup0 x)))) kwargs)
                     (fold (\<lambda>(x, a). t a (the (lookup0 x))) kwargs
                        (fold (\<lambda>(a, sp). t a sp) (zip args (fst sig0)) s)))"
proof -
  let ?w = "\<lparr>origin_func = func, arg_names = get_arg_names ins func,
             arg_specs = Some (fst sig0), kwarg_specs = Some lookup0\<rparr>"
  from assms(1,2) have "map_of (get_restored_functions ins loaded_model) k = Some func"
    by simp
  then have hooked: "hook_loaded_model ins loaded_model k =
      Some (Wrapped (tf_init func (get_arg_names ins func) (Some (fst sig0)) (Some (snd sig0))))"
    using assms(3) by (simp add: hook_loaded_model_def hook_fold [OF assms(1)])
  have built: "tf_init func (get_arg_names ins func) (Some (fst sig0)) (Some (snd sig0)) = ?w"
    by (simp add: tf_init_def assms(4) dict_update_def dict_of_pairs_map_of or_nil_def
        or_empty_def map_add_def fun_eq_iff split: option.splits)
  have unknown: "x \<in> set (map fst kwargs) \<and> lookup0 x = None \<longrightarrow>
      (\<exists>x'. x' \<in> set (map fst kwargs) \<and> lookup0 x' = None \<and>
         tf_call cast ?w args kwargs s = (Inl (TypeError_unexpected_keyword x'), s))"
  proof
    assume "x \<in> set (map fst kwargs) \<and> lookup0 x = None"
    then have a1: "x \<in> set (map fst kwargs)" and a2: "lookup0 x = None"
      by simp_all
    have ks: "kwarg_specs ?w = Some lookup0" by simp
    from tf_call_unknown_keyword [OF ks a1 a2, of cast args s]
    obtain x' where "x' \<in> set (map fst kwargs)" and "lookup0 x' = None"
      and "tf_call cast ?w args kwargs s = (Inl (TypeError_unexpected_keyword x'), s)"
      by blast
    then show "\<exists>x'. x' \<in> set (map fst kwargs) \<and> lookup0 x' = None \<and>
         tf_call cast ?w args kwargs s = (Inl (TypeError_unexpected_keyword x'), s)"
      by blast
  qed
  have coerced: "(\<forall>a sp s. cast a sp s = (Inr (c a sp), t a sp s)) \<and>
      get_arg_names ins func = Some ns \<and>
      (\<forall>x \<in> set (map fst kwargs). lookup0 x \<noteq> None) \<and>
      set (map fst (zip ns args)) \<inter> set (map fst kwargs) = {} \<longrightarrow>
        tf_call cast ?w args kwargs s =
          func (map (\<lambda>(a, sp). c a sp) (zip args (fst sig0)))
               (map (\<lambda>(x, a). (x, c a (the (lookup0 x)))) kwargs)
               (fold (\<lambda>(x, a). t a (the (lookup0 x))) kwargs
                  (fold (\<lambda>(a, sp). t a sp) (zip args (fst sig0)) s))"
  proof
    assume a: "(\<forall>a sp s. cast a sp s = (Inr (c a sp), t a sp s)) \<and>
      get_arg_names ins func = Some ns \<and>
      (\<forall>x \<in> set (map fst kwargs). lookup0 x \<noteq> None) \<and>
      set (map fst (zip ns args)) \<inter> set (map fst kwargs) = {}"
    then have pure: "\<And>a sp s. cast a sp s = (Inr (c a sp), t a sp s)"
      and known: "\<forall>x \<in> set (map fst kwargs). lookup0 x \<noteq> None"
      and disjoint: "set (map fst (zip ns args)) \<inter> set (map fst kwargs) = {}"
      by simp_all
    have h1: "arg_specs ?w = Some (fst sig0)" and h2: "arg_names ?w = Some ns"
      and h3: "kwarg_specs ?w = Some lookup0"
      using a by simp_all
    from tf_call_coerces [of ?w "fst sig0" ns lookup0 cast c t kwargs args s,
        OF h1 h2 h3 pure known disjoint]
    show "tf_call cast ?w args kwargs s =
          func (map (\<lambda>(a, sp). c a sp) (zip args (fst sig0)))
               (map (\<lambda>(x, a). (x, c a (the (lookup0 x)))) kwargs)
               (fold (\<lambda>(x, a). t a (the (lookup0 x))) kwargs
                  (fold (\<lambda>(a, sp). t a sp) (zip args (fst sig0)) s))"
      by simp
  qed
  from hooked built unknown coerced show ?thesis
    by simp
qed

theorem hook_uses_first_signature_witness:
  "\<exists>w. hook_loaded_model two_signatures Map.empty ''predict'' = Some (Wrapped w) \<and>
     arg_specs w = Some [1] \<and>
     kwarg_specs w = Some [''x'' \<mapsto> 1] \<and>
     tf_call log_cast w [5] [(''y'', 7)] [] = (Inl (TypeError_unexpected_keyword ''y''), []) \<and>
     tf_call log_cast w [5, 8] [] [] = (Inr [6], [Cast 5 1, Invoke [6] []])"
proof -
  have h1: "distinct (map fst (get_restored_functions two_signatures Map.empty))"
    by (simp add: two_signatures_def)
  have h2: "(''predict'', log_origin) \<in> set (get_restored_functions two_signatures Map.empty)"
    by (simp add: two_signatures_def)
  have h3: "get_input_signatures two_signatures log_origin =
              ([1], Map.empty) # [([2, 3], [''y'' \<mapsto> 4])]"
    by (simp add: two_signatures_def)
  have h4: "[''x'' \<mapsto> 1::nat] =
      (\<lambda>x. case snd ([1::nat], Map.empty :: string \<rightharpoonup> nat) x of
              Some sp \<Rightarrow> Some sp
            | None \<Rightarrow>
                map_of (rev (zip (case get_arg_names two_signatures log_origin of
                                   None \<Rightarrow> [] | Some xs \<Rightarrow> xs)
                             (fst ([1::nat], Map.empty :: string \<rightharpoonup> nat)))) x)"
    by (simp add: two_signatures_def fun_eq_iff)
  have names: "get_arg_names two_signatures log_origin = Some [''x'', ''y'']"
    by (simp add: two_signatures_def)
  from hook_uses_first_signature [OF h1 h2 h3 h4,
      of "''y''" "[(''y'', 7)]" log_cast "[5]" "[]" "\<lambda>a sp. a + int sp"
         "\<lambda>a sp s. s @ [Cast a sp]" "[''x'', ''y'']"]
  obtain w where w: "hook_loaded_model two_signatures Map.empty ''predict'' = Some (Wrapped w)"
    and fields: "w = \<lparr>origin_func = log_origin,
                      arg_names = get_arg_names two_signatures log_origin,
                      arg_specs = Some (fst ([1::nat], Map.empty :: string \<rightharpoonup> nat)),
                      kwarg_specs = Some [''x'' \<mapsto> 1]\<rparr>"
    and rejected: "\<exists>x'. x' \<in> set (map fst [(''y'', 7::int)]) \<and> [''x'' \<mapsto> 1::nat] x' = None \<and>
                     tf_call log_cast w [5] [(''y'', 7)] [] =
                       (Inl (TypeError_unexpected_keyword x'), [])"
    by auto
  from rejected have r: "tf_call log_cast w [5] [(''y'', 7)] [] =
      (Inl (TypeError_unexpected_keyword ''y''), [])"
    by simp
  from hook_uses_first_signature [OF h1 h2 h3 h4,
      of "''y''" "[]" log_cast "[5, 8]" "[]" "\<lambda>a sp. a + int sp"
         "\<lambda>a sp s. s @ [Cast a sp]" "[''x'', ''y'']"] w names
  have c: "tf_call log_cast w [5, 8] [] [] = (Inr [6], [Cast 5 1, Invoke [6] []])"
    by (auto simp: log_cast_succeeds log_origin_def)
  from w fields r c show ?thesis
    by simp
qed

section \<open>Loading and saving\<close>

text \<open>
  With assertions enabled, a load of a \<^verbatim>\<open>tensorflow_hub\<close> entry that leaves
  \<^verbatim>\<open>load_as_wrapper\<close> at \<^verbatim>\<open>None\<close> fails with the assertion error right after the registry
  lookup: the world state is the one the lookup left, whatever the framework operations
  are.
\<close>

lemma load_hub_requires_choice_debug:
  assumes "py_debug fw"
    and "store_get store tag s = (Inr info, s1)"
    and "''tensorflow_hub'' \<in> dom (info_context info)"
  shows "load fw ins store tag tfhub_tags tfhub_options None s = (Inl AssertionError, s1)"
  using assms by (simp add: load_def py_assert_def bnd_apply_Inr raise_apply)

lemma load_hub_fails_with_assertions:
  "load log_framework two_signatures log_store ''hub_model:v1'' None None None [] =
     (Inl AssertionError, [Get ''hub_model:v1''])"
proof -
  have h0: "py_debug log_framework"
    by (simp add: log_framework_def)
  have h1: "store_get log_store ''hub_model:v1'' [] = (Inr hub_info, [Get ''hub_model:v1''])"
    by (simp add: log_store_def log_call_def)
  have h2: "''tensorflow_hub'' \<in> dom (info_context hub_info)"
    by (simp add: hub_info_def)
  from load_hub_requires_choice_debug [OF h0 h1 h2] show ?thesis .
qed

text \<open>
  Claim C8. A load of a tag whose registry entry is marked as a \<^verbatim>\<open>tensorflow_hub\<close> module
  should fail at once with a usage error when the caller omits \<^verbatim>\<open>load_as_wrapper\<close>, with
  no module resolved or loaded and no silent default. The check is an \<^verbatim>\<open>assert\<close>: under
  \<^verbatim>\<open>python -O\<close> it is gone, \<^verbatim>\<open>None\<close> counts as false, and the load of the entry returns
  the raw module after looking for the module descriptor and calling \<^verbatim>\<open>load_v2\<close>.
\<close>

theorem load_hub_silent_default:
  "\<not> py_debug log_framework_O \<and>
   ''tensorflow_hub'' \<in> dom (info_context hub_info) \<and>
   load log_framework_O two_signatures log_store ''hub_model:v1'' None None None [] =
     (Inr [''_is_hub_module_v1'' \<mapsto> Flag False],
      [Get ''hub_model:v1'', Framework ''exists'', Framework ''load_v2''])"
  by (simp add: load_def py_assert_def bnd_def ret_def log_framework_O_def log_framework_def
      log_store_def log_call_def hub_info_def)

text \<open>
  With assertions enabled, \<^verbatim>\<open>save\<close> of a path that is not a directory fails with the
  assertion error inside the registration scope: the scope has been entered, the copy
  has not been called, and the scope is left on its failure path.
\<close>

lemma save_path_not_directory_debug:
  assumes "py_debug fw"
    and "register_enter store nm [''tensorflow'' \<mapsto> tf_version fw] metadata s = (Inr ctx, s1)"
    and "\<not> isdir fw (fs_path p) s1"
  shows "save fw store nm (PathLike p) signatures opts metadata s =
           (Inl AssertionError, register_exit store ctx False s1)"
  using assms by (simp add: save_def with_scope_def py_assert_def bnd_def raise_apply)

lemma save_fails_with_assertions:
  "save log_framework log_store ''m1'' (PathLike (StrPath ''/data/model.h5'')) None None None [] =
     (Inl AssertionError, [Enter ''m1'', Exit False])"
proof -
  have h0: "py_debug log_framework"
    by (simp add: log_framework_def)
  have h1: "register_enter log_store ''m1'' [''tensorflow'' \<mapsto> tf_version log_framework] None [] =
              (Inr \<lparr>ctx_path = ''/store/new'', ctx_tag = ''m1:v1''\<rparr>, [Enter ''m1''])"
    by (simp add: log_store_def log_call_def)
  have h2: "\<not> isdir log_framework (fs_path (StrPath ''/data/model.h5'')) [Enter ''m1'']"
    by (simp add: log_framework_def)
  from save_path_not_directory_debug [OF h0 h1 h2, of None None] show ?thesis
    by (simp add: log_store_def)
qed


text \<open>For comparison, a path that is a directory is copied into the new entry.\<close>

lemma save_directory_copied:
  "save log_framework log_store ''m1'' (PathLike (StrPath ''/data/saved_model'')) None None None [] =
     (Inr ''m1:v1'', [Enter ''m1'', Copy ''/data/saved_model'' ''/store/new'', Exit True])"
  by (simp add: save_def with_scope_def py_assert_def bnd_def ret_def log_framework_def
      log_store_def log_call_def)

text \<open>
  A directory given as \<^verbatim>\<open>bytes\<close> passes the check, and the copy is then asked for the
  text of the literal, not for the directory.
\<close>

lemma save_bytes_path_copied_as_text:
  "save log_framework log_store ''m1'' (PathLike (BytesPath ''/data/saved_model'')) None None None [] =
     (Inl (FrameworkError ''DistutilsFileError''),
      [Enter ''m1'',
       Copy (''b'' @ [CHR 0x27] @ ''/data/saved_model'' @ [CHR 0x27]) ''/store/new'',
       Exit False])"
  by (simp add: save_def with_scope_def py_assert_def bnd_def ret_def log_framework_def
      log_store_def log_call_def)

section \<open>The runner's derived properties\<close>

lemma py_round_nearest: "\<bar>of_int (py_round x) - x\<bar> \<le> 1 / 2"
proof -
  have "of_int \<lfloor>x\<rfloor> \<le> x" and "x < of_int \<lfloor>x\<rfloor> + 1"
    by linarith+
  then show ?thesis
    by (auto simp: py_round_def Let_def)
qed

lemma py_round_five_halves: "py_round (5 / 2) = 2"
  by code_simp

text \<open>
  Where TensorFlow has \<^verbatim>\<open>tf.config.list_physical_devices\<close>, \<^verbatim>\<open>num_replica\<close> is the number
  of GPUs when the quota asks for the GPU and there is one, and 1 otherwise; without a
  GPU quota it is 1 on every host.
\<close>

lemma num_replica_api_present:
  "physical_gpus dv = Some n \<Longrightarrow>
   num_replica dv self = Inr (if 0 < n \<and> on_gpu (resource_quota self) then n else 1)"
  by (simp add: num_replica_def is_gpu_available_def)

lemma num_replica_no_gpu_quota:
  "\<not> on_gpu (resource_quota self) \<Longrightarrow> num_replica dv self = Inr 1"
  by (simp add: num_replica_def)

text \<open>
  Claim C6. \<^verbatim>\<open>num_replica\<close> should return the number of GPU devices when the quota
  requests the GPU and a GPU is available, and 1 otherwise. On a TensorFlow without
  \<^verbatim>\<open>tf.config.list_physical_devices\<close>, with \<^verbatim>\<open>tf.test.is_gpu_available()\<close> true and a GPU
  quota, \<^verbatim>\<open>_is_gpu_available\<close> catches the missing function and answers true, and
  \<^verbatim>\<open>num_replica\<close> then calls the same missing function unguarded: it raises
  \<^verbatim>\<open>AttributeError\<close> and returns no number.
\<close>

theorem num_replica_missing_api:
  "is_gpu_available \<lparr>physical_gpus = None, test_is_gpu_available = True\<rparr> \<and>
   num_replica \<lparr>physical_gpus = None, test_is_gpu_available = True\<rparr>
     \<lparr>runner_name = ''m1:v1'', predict_fn_name = ''__call__'',
      resource_quota = \<lparr>cpu = 4, on_gpu = True\<rparr>\<rparr> = Inl AttributeError"
  by (simp add: num_replica_def is_gpu_available_def)

text \<open>
  Claim C7. \<^verbatim>\<open>num_concurrency_per_replica\<close> is exactly 1 when the quota requests the GPU
  and a GPU is available, whatever the CPU quota; otherwise it is the CPU quota rounded
  to an integer, which is an integer at most one half away from the quota.
\<close>

theorem num_concurrency_per_replica_value:
  "(is_gpu_available dv \<and> on_gpu (resource_quota self) \<longrightarrow>
      num_concurrency_per_replica dv self = 1) \<and>
   (\<not> (is_gpu_available dv \<and> on_gpu (resource_quota self)) \<longrightarrow>
      num_concurrency_per_replica dv self = py_round (cpu (resource_quota self)) \<and>
      \<bar>of_int (num_concurrency_per_replica dv self) - cpu (resource_quota self)\<bar> \<le> 1 / 2)"
  using py_round_nearest [of "cpu (resource_quota self)"]
  by (simp add: num_concurrency_per_replica_def)

theorem num_concurrency_per_replica_value_witness:
  "num_concurrency_per_replica \<lparr>physical_gpus = Some 2, test_is_gpu_available = False\<rparr>
     \<lparr>runner_name = ''m1:v1'', predict_fn_name = ''__call__'',
      resource_quota = \<lparr>cpu = 4, on_gpu = True\<rparr>\<rparr> = 1 \<and>
   num_concurrency_per_replica \<lparr>physical_gpus = Some 2, test_is_gpu_available = False\<rparr>
     \<lparr>runner_name = ''m1:v1'', predict_fn_name = ''__call__'',
      resource_quota = \<lparr>cpu = 5 / 2, on_gpu = False\<rparr>\<rparr> = 2"
  using num_concurrency_per_replica_value
      [of "\<lparr>physical_gpus = Some 2, test_is_gpu_available = False\<rparr>"
          "\<lparr>runner_name = ''m1:v1'', predict_fn_name = ''__call__'',
            resource_quota = \<lparr>cpu = 4, on_gpu = True\<rparr>\<rparr>"]
    num_concurrency_per_replica_value
      [of "\<lparr>physical_gpus = Some 2, test_is_gpu_available = False\<rparr>"
          "\<lparr>runner_name = ''m1:v1'', predict_fn_name = ''__call__'',
            resource_quota = \<lparr>cpu = 5 / 2, on_gpu = False\<rparr>\<rparr>"]
    py_round_five_halves
  by (simp add: is_gpu_available_def)

end
